theory Spec2Isabelle
  imports Main "HOL-Library.Word" "HOL-Library.Multiset"
begin

section \<open>The join hash table of the query engine (JoinHashTable.h)\<close>

subsection \<open>Data of the class\<close>

text \<open>
  \<open>ExecutorDeviceType\<close> and \<open>HashType\<close> are enumerations the header uses by their
  enumerators (\<open>ExecutorDeviceType::CPU\<close>, \<open>HashType::OneToOne\<close>); the value range's
  kind is only ever compared with \<open>ExpressionRangeType::Integer\<close>, so every other kind
  is one constructor here.
\<close>

datatype ExecutorDeviceType = CPU | GPU

datatype HashType = OneToOne | OneToMany

datatype ExpressionRangeType = Integer | NonInteger

record ExpressionRange =
  range_type :: ExpressionRangeType
  int_min :: int
  int_max :: int
  has_nulls :: bool

text \<open>
  A \<open>std::vector<int32_t>\<close> on the heap: the address of its element 0 and its elements.
  A shared pointer to one is an option of it, \<open>None\<close> the null pointer. The members
  of the class end in an underscore in the source (\<open>cpu_hash_table_buff_\<close>); a name
  cannot end so here, and they end in \<open>_m\<close>.
\<close>

record int32_vector =
  data_addr :: "64 word"
  elems :: "32 word list"

record JoinHashTable =
  hash_type_m :: HashType
  hash_entry_count_m :: "64 word"
  cpu_hash_table_buff_m :: "int32_vector option"
  gpu_hash_table_buff_m :: "64 word list"
  col_range_m :: ExpressionRange
  device_count_m :: "32 word"

text \<open>
  What ends a call other than a return: a failed \<open>CHECK\<close> (the logging library aborts
  the process), the dereference of a null pointer, and the two exception classes the
  header declares. \<open>KeyOutsideRange\<close> is the model's own: a build that meets a key
  outside the value range, of which the specification says nothing.
\<close>

datatype failure =
  CheckFailed | NullDereference | HashJoinFail | TooManyHashEntries | KeyOutsideRange

subsection \<open>getJoinHashBuffer\<close>

text \<open>
  The function has two bodies, chosen by the preprocessor symbol \<open>HAVE_CUDA\<close>; the flag
  \<open>have_cuda\<close> selects one. \<open>static_cast<size_t>(device_id)\<close> sign-extends the
  \<open>int\<close> to 64 bits. After the first test a CPU call has a buffer, so the null
  dereference of the last branches is never reached; it is a failure of its own in the
  model all the same.
\<close>

definition deref_first :: "int32_vector option \<Rightarrow> failure + 64 word" where
  "deref_first p = (case p of None \<Rightarrow> Inl NullDereference | Some v \<Rightarrow> Inr (data_addr v))"

definition getJoinHashBuffer ::
  "bool \<Rightarrow> JoinHashTable \<Rightarrow> ExecutorDeviceType \<Rightarrow> 32 word \<Rightarrow> failure + 64 word" where
  "getJoinHashBuffer have_cuda t device_type device_id =
     (if device_type = CPU \<and> cpu_hash_table_buff_m t = None then Inr 0
      else if have_cuda then
        (if \<not> unat (scast device_id :: 64 word) < length (gpu_hash_table_buff_m t)
         then Inl CheckFailed
         else if device_type = CPU then deref_first (cpu_hash_table_buff_m t)
         else Inr (gpu_hash_table_buff_m t ! unat (scast device_id :: 64 word)))
      else
        (if device_type \<noteq> CPU then Inl CheckFailed
         else deref_first (cpu_hash_table_buff_m t)))"

subsection \<open>The cache key and its comparison\<close>

text \<open>
  \<open>JoinHashTableCacheKey\<close> has six fields. The comparison operators of
  \<open>ExpressionRange\<close>, \<open>Analyzer::ColumnVar\<close>, \<open>ChunkKey\<close> and \<open>SQLOps\<close> are declared
  elsewhere: the types are parameters of the record and their comparisons parameters of
  \<open>operator==\<close>. \<open>num_elements\<close> is a \<open>size_t\<close>, compared as a number.
\<close>

record ('r, 'c, 'k, 'o) JoinHashTableCacheKey =
  col_range :: 'r
  inner_col :: 'c
  outer_col :: 'c
  num_elements :: "64 word"
  chunk_key :: 'k
  optype :: 'o

definition JoinHashTableCacheKey_eq ::
  "('r \<Rightarrow> 'r \<Rightarrow> bool) \<Rightarrow> ('c \<Rightarrow> 'c \<Rightarrow> bool) \<Rightarrow> ('k \<Rightarrow> 'k \<Rightarrow> bool) \<Rightarrow> ('o \<Rightarrow> 'o \<Rightarrow> bool) \<Rightarrow>
   ('r, 'c, 'k, 'o) JoinHashTableCacheKey \<Rightarrow> ('r, 'c, 'k, 'o) JoinHashTableCacheKey \<Rightarrow> bool" where
  "JoinHashTableCacheKey_eq eq_range eq_col eq_chunk eq_op this that =
     (if eq_range (col_range this) (col_range that) then
        if eq_col (inner_col this) (inner_col that) then
          if eq_col (outer_col this) (outer_col that) then
            if num_elements this = num_elements that then
              if eq_chunk (chunk_key this) (chunk_key that) then
                eq_op (optype this) (optype that)
              else False
            else False
          else False
        else False
      else False)"

subsection \<open>The constructor\<close>

text \<open>
  The private constructor copies its arguments into the members, starts with the
  One-to-One hash type, an entry count of 0 and no buffer, and \<open>CHECK\<close>s that the value
  range is an integer range. The members that only hold references to the query (the
  operator, the column, the executor) carry no claim and are left out.
\<close>

definition JoinHashTable_ctor :: "ExpressionRange \<Rightarrow> 32 word \<Rightarrow> failure + JoinHashTable" where
  "JoinHashTable_ctor col_range' device_count =
     (if range_type col_range' = Integer then
        Inr \<lparr>hash_type_m = OneToOne, hash_entry_count_m = 0, cpu_hash_table_buff_m = None,
             gpu_hash_table_buff_m = [], col_range_m = col_range', device_count_m = device_count\<rparr>
      else Inl CheckFailed)"

text \<open>The error code of a One-to-One build that met a duplicate key, as the header has it.\<close>

definition ERR_COLUMN_NOT_UNIQUE :: int where
  "ERR_COLUMN_NOT_UNIQUE = - 5"

section \<open>The hash table builder\<close>

text \<open>
  The header declares the functions of the builder (\<open>getInstance\<close>, \<open>reify\<close>,
  \<open>initHashTableOnCpu\<close>, \<open>initOneToManyHashTableOnCpu\<close>, \<open>needOneToManyHash\<close>);
  their bodies are in \<open>JoinHashTable.cpp\<close>, which is not among the sources. They are
  modelled from sections 3 and 4.4 of the specification.

  A source row is its index in the column and its key, \<open>None\<close> for a null. The builder
  is given the rows in the order in which it visits them; \<open>source_rows\<close> is the column
  buffer read front to back. The order is a parameter because the specification leaves
  it open (the payload order of a One-to-Many table is "intentionally unspecified").
  \<open>keys_of\<close> are the keys of the rows that have one, \<open>rows_with k\<close> the indices of the
  rows with key \<open>k\<close>, and \<open>keys_within\<close> says that every key lies in the value range.
\<close>

type_synonym source_row = "nat \<times> int option"

definition source_rows :: "int option list \<Rightarrow> source_row list" where
  "source_rows col = zip [0..<length col] col"


definition rows_with :: "int \<Rightarrow> source_row list \<Rightarrow> nat list" where
  "rows_with k rows = map fst (filter (\<lambda>row. snd row = Some k) rows)"


subsection \<open>One-to-One\<close>

text \<open>
  Modelled from the spec: the test of section 4.4, step 3, "if the target bucket already
  holds a different row's index". Section 3 has the One-to-One table as "a flat array of
  signed 32-bit slot values sized to the bucket count, sentinel = invalid for unmatched
  buckets, exactly one payload row index per populated bucket". Which row's index a bucket
  holds is not to be read off its slot: the sentinel is a parameter and can be the stored
  index of a row, and two rows can be stored alike. The fill therefore keeps, beside the
  array, the row whose index each bucket holds, \<open>None\<close> for an unmatched bucket, and the
  test is made on that.
\<close>

definition holds_other_row :: "nat option \<Rightarrow> nat \<Rightarrow> bool" where
  "holds_other_row holder i = (case holder of None \<Rightarrow> False | Some j \<Rightarrow> j \<noteq> i)"

text \<open>
  Modelled from the spec: the body of \<open>initHashTableOnCpu\<close> is missing. The header has
  the array as a \<open>std::vector<int32_t>\<close>, and the entry count and the sentinel as
  \<open>int32_t\<close> parameters. Section 4.4, step 3: "allocate a bucket array pre-filled with
  the invalid sentinel. For each source row (skipping nulls), compute bucket = value - min;
  if the target bucket already holds a different row's index, a duplicate key has been
  detected [...] abort the in-progress array".

  A row index is a \<open>size_t\<close>; it is stored converted to the 32 bits of the slot
  (\<open>word_of_nat\<close>). The function returns the error code (0, or \<open>ERR_COLUMN_NOT_UNIQUE\<close>)
  and the array. The specification says nothing of a key outside the value range: the model
  stops there with \<open>None\<close>, and no theorem is about that case.
\<close>

fun fill_one_to_one ::
  "int \<Rightarrow> source_row list \<Rightarrow> 32 word list \<Rightarrow> nat option list \<Rightarrow> (int \<times> 32 word list) option" where
  "fill_one_to_one mn [] tbl holder = Some (0, tbl)"
| "fill_one_to_one mn ((i, None) # rows) tbl holder = fill_one_to_one mn rows tbl holder"
| "fill_one_to_one mn ((i, Some v) # rows) tbl holder =
     (if mn \<le> v \<and> v - mn < int (length tbl) then
        (if holds_other_row (holder ! nat (v - mn)) i then Some (ERR_COLUMN_NOT_UNIQUE, tbl)
         else fill_one_to_one mn rows (tbl[nat (v - mn) := word_of_nat i])
                (holder[nat (v - mn) := Some i]))
      else None)"

text \<open>
  Modelled from the spec: \<open>initHashTableOnCpu\<close>, the fill above on a fresh array of
  \<open>hash_entry_count\<close> buckets "pre-filled with the invalid sentinel", all of them
  unmatched, with the minimum of the table's value range. The entry count is an
  \<open>int32_t\<close>; a count that is not positive gives an array without buckets.
\<close>

definition initHashTableOnCpu ::
  "ExpressionRange \<Rightarrow> source_row list \<Rightarrow> 32 word \<Rightarrow> 32 word \<Rightarrow> (int \<times> 32 word list) option" where
  "initHashTableOnCpu r rows hash_entry_count hash_join_invalid_val =
     fill_one_to_one (int_min r) rows
       (replicate (nat (sint hash_entry_count)) hash_join_invalid_val)
       (replicate (nat (sint hash_entry_count)) None)"

subsection \<open>One-to-Many\<close>

text \<open>
  Modelled from the spec: the body of \<open>initOneToManyHashTableOnCpu\<close> is missing.
  Section 3: "three parallel arrays -- per-bucket counts, per-bucket prefix-sum offsets,
  and a flat row-index payload array whose length equals the number of non-null keys".
  Section 4.4, step 4: "Pass 1 counts rows per bucket (including a sentinel no-value bucket
  for nulls [...]). Pass 2 prefix-sums the counts into offsets, then scatters each row's
  index into the offset-addressed slot of the payload array, advancing a per-bucket write
  cursor."
\<close>

text \<open>
  The One-to-Many payload: the three arrays, and the count of the bucket for nulls. The
  payload array holds row indices in signed 32-bit slots, as the One-to-One array does;
  counts and offsets are numbers of rows and positions in the payload array.
\<close>

record one_to_many =
  counts :: "nat list"
  offsets :: "nat list"
  payload :: "32 word list"
  null_bucket :: nat

text \<open>Modelled from the spec: pass 1, "counts rows per bucket", nulls in a bucket of their own.\<close>

fun count_rows :: "int \<Rightarrow> source_row list \<Rightarrow> nat list \<Rightarrow> nat \<Rightarrow> (nat list \<times> nat) option" where
  "count_rows mn [] cs nulls = Some (cs, nulls)"
| "count_rows mn ((i, None) # rows) cs nulls = count_rows mn rows cs (nulls + 1)"
| "count_rows mn ((i, Some v) # rows) cs nulls =
     (if mn \<le> v \<and> v - mn < int (length cs) then
        count_rows mn rows (cs[nat (v - mn) := cs ! nat (v - mn) + 1]) nulls
      else None)"

text \<open>Modelled from the spec: pass 2, first half, "prefix-sums the counts into offsets".\<close>

fun prefix_sums :: "nat \<Rightarrow> nat list \<Rightarrow> nat list" where
  "prefix_sums acc [] = []"
| "prefix_sums acc (c # cs) = acc # prefix_sums (acc + c) cs"

text \<open>
  Modelled from the spec: pass 2, second half, "scatters each row's index into the
  offset-addressed slot of the payload array, advancing a per-bucket write cursor". The
  row index is converted to the 32 bits of the slot. A write outside the payload array
  stops the model with \<open>None\<close>.
\<close>

fun scatter ::
  "int \<Rightarrow> source_row list \<Rightarrow> nat list \<Rightarrow> 32 word list \<Rightarrow> 32 word list option" where
  "scatter mn [] cursor pay = Some pay"
| "scatter mn ((i, None) # rows) cursor pay = scatter mn rows cursor pay"
| "scatter mn ((i, Some v) # rows) cursor pay =
     (if mn \<le> v \<and> v - mn < int (length cursor) then
        (if cursor ! nat (v - mn) < length pay then
           scatter mn rows (cursor[nat (v - mn) := cursor ! nat (v - mn) + 1])
             (pay[cursor ! nat (v - mn) := word_of_nat i])
         else None)
      else None)"

text \<open>
  Modelled from the spec: \<open>initOneToManyHashTableOnCpu\<close>, the two passes in order; the
  payload array has one slot per counted row, the write cursors start at the offsets.
\<close>

definition initOneToManyHashTableOnCpu ::
  "ExpressionRange \<Rightarrow> source_row list \<Rightarrow> 32 word \<Rightarrow> 32 word \<Rightarrow> one_to_many option" where
  "initOneToManyHashTableOnCpu r rows hash_entry_count hash_join_invalid_val =
     (case count_rows (int_min r) rows (replicate (nat (sint hash_entry_count)) 0) 0 of
        None \<Rightarrow> None
      | Some (cs, nulls) \<Rightarrow>
          (case scatter (int_min r) rows (prefix_sums 0 cs)
                  (replicate (sum_list cs) hash_join_invalid_val) of
             None \<Rightarrow> None
           | Some pay \<Rightarrow>
               Some \<lparr>counts = cs, offsets = prefix_sums 0 cs, payload = pay,
                     null_bucket = nulls\<rparr>))"


subsection \<open>The build attempt\<close>

text \<open>
  Modelled from the spec: the bodies of \<open>needOneToManyHash\<close> and \<open>reify\<close> are
  missing. Section 4.4 gives the state machine of a build attempt, "Start ->
  RangeValidated -> EntryCountComputed -> Populating -> {Succeeded | FellBackToOneToMany |
  Failed}": "bucket count = (max - min + 1) [...] if this exceeds the 2^31 entry cap, the
  build fails fatally" (section 3: "total entries <= 2^31 - 1"); a duplicate key makes the
  builder "restart in the One-to-Many discipline rather than erroring". \<open>reify\<close> is a
  member function: it runs on a constructed table, whose range the constructor has
  checked, so it starts in \<open>RangeValidated\<close>. It returns the states it went through
  and its outcome. Sharding is not modelled: the specification gives no formula for the
  scaling of the bucket count or the shift of the bucket by the shard count.
\<close>

datatype build_state =
  Start | RangeValidated | EntryCountComputed | Populating
  | Succeeded | FellBackToOneToMany | Failed

datatype HashTablePayload = OneToOneTable "32 word list" | OneToManyTable one_to_many

type_synonym build_attempt = "build_state list \<times> (failure + HashTablePayload)"

text \<open>
  Modelled from the spec: \<open>needOneToManyHash\<close> takes the error codes of the One-to-One
  attempts (one per device) and asks for the One-to-Many discipline when one of them
  reports a duplicate key.
\<close>

definition needOneToManyHash :: "int list \<Rightarrow> bool" where
  "needOneToManyHash errors = list_ex (\<lambda>e. e = ERR_COLUMN_NOT_UNIQUE) errors"

text \<open>
  Modelled from the spec: \<open>reify\<close>, steps 2 to 5 of the state machine. The entry count
  within the cap is passed on as the \<open>int32_t\<close> that the two builders take. An error
  code other than 0 and \<open>ERR_COLUMN_NOT_UNIQUE\<close> is a failed hash join.
\<close>

definition reify :: "JoinHashTable \<Rightarrow> 32 word \<Rightarrow> source_row list \<Rightarrow> build_attempt" where
  "reify t hash_join_invalid_val rows =
     (let r = col_range_m t; entry_count = int_max r - int_min r + 1 in
      if entry_count > 2 ^ 31 - 1 then ([RangeValidated, Failed], Inl TooManyHashEntries)
      else
        (case initHashTableOnCpu r rows (word_of_nat (nat entry_count)) hash_join_invalid_val of
           None \<Rightarrow>
             ([RangeValidated, EntryCountComputed, Populating, Failed], Inl KeyOutsideRange)
         | Some (err, tbl) \<Rightarrow>
             if needOneToManyHash [err] then
               (case initOneToManyHashTableOnCpu r rows (word_of_nat (nat entry_count))
                       hash_join_invalid_val of
                  None \<Rightarrow>
                    ([RangeValidated, EntryCountComputed, Populating, Failed],
                     Inl KeyOutsideRange)
                | Some m \<Rightarrow>
                    ([RangeValidated, EntryCountComputed, Populating, FellBackToOneToMany],
                     Inr (OneToManyTable m)))
             else if err = 0 then
               ([RangeValidated, EntryCountComputed, Populating, Succeeded],
                Inr (OneToOneTable tbl))
             else ([RangeValidated, EntryCountComputed, Populating, Failed], Inl HashJoinFail)))"

text \<open>
  Modelled from the spec: the body of \<open>getInstance\<close>, the factory that the header
  declares and the only way to the private constructor, is missing. It is given here the
  value range of the join column, which it has from the range estimation (section 3:
  "supplied by an external range-estimation collaborator"). Section 4.4, step 1: "the value
  range must be an integer range; any other range kind is rejected immediately (signals not
  supported by this path to the caller, which must fall back to a different join
  strategy)". The signal is \<open>HashJoinFail\<close>, the exception that the header declares for
  a hash join that cannot be done. A range that passes is handed to the constructor, whose
  \<open>CHECK\<close> then holds, and the table is built by \<open>reify\<close>.
\<close>

definition getInstance ::
  "ExpressionRange \<Rightarrow> 32 word \<Rightarrow> 32 word \<Rightarrow> source_row list \<Rightarrow> build_attempt" where
  "getInstance r device_count hash_join_invalid_val rows =
     (if range_type r \<noteq> Integer then ([Start, Failed], Inl HashJoinFail)
      else
        (case JoinHashTable_ctor r device_count of
           Inl e \<Rightarrow> ([Start, Failed], Inl e)
         | Inr t \<Rightarrow>
             (case reify t hash_join_invalid_val rows of
                (states, result) \<Rightarrow> (Start # states, result))))"


subsection \<open>The hash table cache\<close>

text \<open>
  Modelled from the spec: the bodies of \<open>initHashTableOnCpuFromCache\<close> and
  \<open>putHashTableOnCpuToCache\<close> are missing; the header declares them and the static
  member \<open>join_hash_table_cache_\<close>, a vector of pairs of a cache key and a shared pointer
  to the table. Section 3: the entries are "held in an append-only list guarded by a single
  lock". Section 4.2: "lookup(fingerprint) -> optional<shared HashTablePayload>" and
  "insert(fingerprint, payload): idempotent -- if a concurrent build already inserted an
  equal fingerprint, the later insert is a no-op and the earlier payload wins". Section 8:
  "building the same fingerprint twice must yield get-or-insert semantics". Each operation
  runs under the lock, so a run of several threads is a sequence of these operations. A
  payload \<open>'p\<close> is the shared pointer: equal payloads are the same instance. The
  comparison of fingerprints is the parameter \<open>eq\<close>.
\<close>

text \<open>Modelled from the spec: the cache, its lookup, its insert, and get-or-insert.\<close>

type_synonym ('k, 'p) hash_table_cache = "('k \<times> 'p) list"

definition cache_lookup :: "('k \<Rightarrow> 'k \<Rightarrow> bool) \<Rightarrow> 'k \<Rightarrow> ('k, 'p) hash_table_cache \<Rightarrow> 'p option" where
  "cache_lookup eq fingerprint cache =
     map_option snd (find (\<lambda>kv. eq (fst kv) fingerprint) cache)"

definition cache_insert ::
  "('k \<Rightarrow> 'k \<Rightarrow> bool) \<Rightarrow> 'k \<Rightarrow> 'p \<Rightarrow> ('k, 'p) hash_table_cache \<Rightarrow> ('k, 'p) hash_table_cache" where
  "cache_insert eq fingerprint p cache =
     (if list_ex (\<lambda>kv. eq (fst kv) fingerprint) cache then cache
      else cache @ [(fingerprint, p)])"

definition get_or_insert ::
  "('k \<Rightarrow> 'k \<Rightarrow> bool) \<Rightarrow> 'k \<Rightarrow> 'p \<Rightarrow> ('k, 'p) hash_table_cache \<Rightarrow> 'p \<times> ('k, 'p) hash_table_cache" where
  "get_or_insert eq fingerprint built cache =
     (case cache_lookup eq fingerprint cache of
        Some p \<Rightarrow> (p, cache)
      | None \<Rightarrow> (built, cache_insert eq fingerprint built cache))"

text \<open>A history of the cache: the inserts of several requests, one after the other.\<close>

definition insert_all ::
  "('k \<Rightarrow> 'k \<Rightarrow> bool) \<Rightarrow> ('k \<times> 'p) list \<Rightarrow> ('k, 'p) hash_table_cache \<Rightarrow> ('k, 'p) hash_table_cache" where
  "insert_all eq requests cache = foldl (\<lambda>c kp. cache_insert eq (fst kp) (snd kp) c) cache requests"

section \<open>The Cartesian product iterator (GpuMemUtils.h)\<close>

text \<open>
  \<open>size_t\<close> values are natural numbers below \<open>2^64\<close> with the wrap-around written out
  where the code computes: the product \<open>order_size_ *= entry.size()\<close>, the decrement
  \<open>--steps[j-1]\<close>, the increment of an index. The members \<open>position_\<close>, \<open>cbegins_\<close>
  and \<open>cends_\<close> are never written by the constructor and are left out. \<open>std::vector\<close>'s
  \<open>operator[]\<close> does not check its index: a read outside a container is undefined
  behaviour, and the constructor of the model returns \<open>None\<close> there.

  \<open>scan_structure\<close> is the first loop of the constructor, over the inner containers;
  \<open>read_row\<close> builds one row, \<open>structure[j][index_[j]]\<close> for \<open>j < size_\<close>;
  \<open>advance\<close> is the inner loop \<open>for (j = size_; j > 0; --j)\<close> that steps the indices;
  \<open>generate\<close> is the loop \<open>for (i = 0; i != order_size_; ++i)\<close>, given the number of
  iterations left.
\<close>

definition SIZE_MAX :: nat where
  "SIZE_MAX = 2 ^ 64 - 1"

definition dec_size_t :: "nat \<Rightarrow> nat" where
  "dec_size_t x = (x + 2 ^ 64 - 1) mod 2 ^ 64"

record 'a CartesianProductIterator =
  structure_m :: "'a list list"
  absolutePosition_m :: nat
  result_m :: "'a list list"
  size_m :: nat
  order_size_m :: nat

fun scan_structure ::
  "'a list list \<Rightarrow> nat \<times> nat list \<times> nat list \<times> nat \<Rightarrow> nat \<times> nat list \<times> nat list \<times> nat" where
  "scan_structure [] st = st"
| "scan_structure (entry # rest) (sz, index, input_size, order_size) =
     (if length entry \<noteq> 0 then
        scan_structure rest
          (sz + 1, index @ [0], input_size @ [length entry], (order_size * length entry) mod 2 ^ 64)
      else scan_structure rest (sz, index, input_size, order_size))"

definition read_row :: "'a list list \<Rightarrow> nat list \<Rightarrow> nat \<Rightarrow> 'a list option" where
  "read_row structure index sz =
     (if list_all (\<lambda>j. j < length structure \<and> index ! j < length (structure ! j)) [0..<sz]
      then Some (map (\<lambda>j. structure ! j ! (index ! j)) [0..<sz])
      else None)"

fun advance :: "nat \<Rightarrow> nat list \<Rightarrow> nat list \<Rightarrow> nat list \<Rightarrow> nat list \<times> nat list" where
  "advance 0 input_size steps index = (steps, index)"
| "advance (Suc j) input_size steps index =
     (if dec_size_t (steps ! j) = 0 then
        advance j input_size (steps[j := input_size ! j]) index
      else
        (steps[j := dec_size_t (steps ! j)],
         index[j := ((index ! j + 1) mod 2 ^ 64) mod (input_size ! j)]))"

fun generate ::
  "nat \<Rightarrow> 'a list list \<Rightarrow> nat \<Rightarrow> nat list \<Rightarrow> nat list \<Rightarrow> nat list \<Rightarrow> 'a list list \<Rightarrow>
   'a list list option" where
  "generate 0 structure sz input_size steps index result = Some result"
| "generate (Suc n) structure sz input_size steps index result =
     (case read_row structure index sz of
        None \<Rightarrow> None
      | Some row \<Rightarrow>
          (case advance sz input_size steps index of
             (steps', index') \<Rightarrow>
               generate n structure sz input_size steps' index' (result @ [row])))"

definition increment :: "'a CartesianProductIterator \<Rightarrow> 'a CartesianProductIterator" where
  "increment it =
     (if absolutePosition_m it = SIZE_MAX then it
      else if absolutePosition_m it \<ge> dec_size_t (order_size_m it)
        then it\<lparr>absolutePosition_m := SIZE_MAX\<rparr>
      else it\<lparr>absolutePosition_m := absolutePosition_m it + 1\<rparr>)"

definition CartesianProductIterator_ctor ::
  "'a list list \<Rightarrow> nat \<Rightarrow> 'a CartesianProductIterator option" where
  "CartesianProductIterator_ctor structure pos =
     (case scan_structure structure (0, [], [], 1) of
        (sz, index, input_size, order_size) \<Rightarrow>
          if pos = SIZE_MAX \<or> sz = 0 then
            Some \<lparr>structure_m = structure, absolutePosition_m = SIZE_MAX, result_m = [],
                  size_m = sz, order_size_m = order_size\<rparr>
          else
            (case generate order_size structure sz input_size input_size index [] of
               None \<Rightarrow> None
             | Some rows \<Rightarrow>
                 Some ((increment ^^ pos)
                   \<lparr>structure_m = structure, absolutePosition_m = 0, result_m = rows,
                    size_m = sz, order_size_m = order_size\<rparr>)))"

definition getSize :: "'a CartesianProductIterator \<Rightarrow> nat" where
  "getSize it = length (result_m it)"

text \<open>The inner containers that the constructor does not skip.\<close>

definition non_empty :: "'a list list \<Rightarrow> 'a list list" where
  "non_empty structure = filter (\<lambda>entry. entry \<noteq> []) structure"

section \<open>Properties\<close>

subsection \<open>getJoinHashBuffer on the CPU\<close>

text \<open>
  C9 as it is written fails in the CUDA build: there the \<open>CHECK_LT\<close> on the device id
  comes before the buffer's address is taken. A table with a CPU buffer at address 4096
  and one GPU buffer, asked for device 1, aborts and returns no address.
\<close>

theorem getJoinHashBuffer_counterexample:
  "getJoinHashBuffer True
     \<lparr>hash_type_m = OneToOne, hash_entry_count_m = 1,
      cpu_hash_table_buff_m = Some \<lparr>data_addr = 4096, elems = [0]\<rparr>,
      gpu_hash_table_buff_m = [8192], col_range_m = \<lparr>range_type = Integer, int_min = 5,
      int_max = 5, has_nulls = False\<rparr>, device_count_m = 1\<rparr> CPU 1 = Inl CheckFailed"
  by (simp add: getJoinHashBuffer_def)

text \<open>
  C9, amended. A CPU call returns 0 when no CPU buffer has been built. When one exists,
  it returns the address of the buffer's first element, provided that in the CUDA build
  the device id (as a \<open>size_t\<close>) is below the number of GPU buffers; if it is not, the
  \<open>CHECK_LT\<close> fails.
\<close>

theorem getJoinHashBuffer_cpu:
  "getJoinHashBuffer have_cuda t CPU device_id =
     (case cpu_hash_table_buff_m t of
        None \<Rightarrow> Inr 0
      | Some v \<Rightarrow>
          if have_cuda \<and> length (gpu_hash_table_buff_m t) \<le> unat (scast device_id :: 64 word)
          then Inl CheckFailed else Inr (data_addr v))"
  by (cases "cpu_hash_table_buff_m t")
     (simp_all add: getJoinHashBuffer_def deref_first_def not_less)

theorem getJoinHashBuffer_cpu_witness:
  "getJoinHashBuffer False
     \<lparr>hash_type_m = OneToOne, hash_entry_count_m = 1,
      cpu_hash_table_buff_m = Some \<lparr>data_addr = 4096, elems = [0]\<rparr>,
      gpu_hash_table_buff_m = [], col_range_m = \<lparr>range_type = Integer, int_min = 5,
      int_max = 5, has_nulls = False\<rparr>, device_count_m = 1\<rparr> CPU 0 = Inr 4096"
  by (simp add: getJoinHashBuffer_cpu)

subsection \<open>Equality of cache keys\<close>

text \<open>
  C5. Two cache keys compare equal exactly when each of the six fields compares equal
  under its own comparison; and when those comparisons are equality of values, the keys
  compare equal exactly when they are the same value (structural equality).
\<close>

theorem JoinHashTableCacheKey_eq_iff:
  "(JoinHashTableCacheKey_eq eq_range eq_col eq_chunk eq_op this that \<longleftrightarrow>
      eq_range (col_range this) (col_range that) \<and>
      eq_col (inner_col this) (inner_col that) \<and>
      eq_col (outer_col this) (outer_col that) \<and>
      num_elements this = num_elements that \<and>
      eq_chunk (chunk_key this) (chunk_key that) \<and>
      eq_op (optype this) (optype that)) \<and>
   (JoinHashTableCacheKey_eq (=) (=) (=) (=) this that \<longleftrightarrow> this = that)"
  by (cases this, cases that) (simp add: JoinHashTableCacheKey_eq_def)

subsection \<open>The builder: helper lemmas and the claims on the build attempt\<close>

text \<open>
  The column buffer read front to back gives each row index once, and row \<open>i\<close> has the
  key stored at position \<open>i\<close>.
\<close>

lemma source_rows_indices: "map fst (source_rows col) = [0..<length col]"
  by (simp add: source_rows_def)

lemma source_rows_distinct: "distinct (map fst (source_rows col))"
  by (simp add: source_rows_indices)

lemma source_rows_set: "set (source_rows col) = {(i, col ! i) |i. i < length col}"
proof -
  have "\<exists>j. i = [0..<length col] ! j \<and> col ! i = col ! j \<and> j < length col"
    if "i < length col" for i
    using that by (intro exI[of _ i]) simp
  then show ?thesis by (auto simp: source_rows_def set_zip)
qed




lemma rows_with_simps [simp]:
  "rows_with k [] = []"
  "rows_with k ((i, None) # rows) = rows_with k rows"
  "rows_with k ((i, Some v) # rows) = (if v = k then i # rows_with k rows else rows_with k rows)"
  by (simp_all add: rows_with_def)




lemma length_prefix_sums [simp]: "length (prefix_sums a cs) = length cs"
  by (induction a cs rule: prefix_sums.induct) simp_all













lemma ctor_range: "JoinHashTable_ctor r device_count = Inr t \<Longrightarrow> col_range_m t = r"
  by (auto simp: JoinHashTable_ctor_def split: if_splits)

text \<open>
  A row index in a signed 32-bit slot: an index below \<open>2^31\<close> is read back as it was
  stored, and two such indices are stored differently. The entry count within the cap is
  kept by the \<open>int32_t\<close> that the builders take.
\<close>

lemma sint_row_index: "i < 2 ^ 31 \<Longrightarrow> sint (word_of_nat i :: 32 word) = int i"
  by (simp add: signed_of_nat signed_take_bit_int_eq_self)

lemma row_index_inj:
  assumes "i < 2 ^ 31" and "j < 2 ^ 31" and "(word_of_nat i :: 32 word) = word_of_nat j"
  shows "i = j"
proof -
  have "int i = sint (word_of_nat i :: 32 word)" using sint_row_index[OF assms(1)] by (rule sym)
  also have "\<dots> = sint (word_of_nat j :: 32 word)" unfolding assms(3) ..
  also have "\<dots> = int j" by (rule sint_row_index[OF assms(2)])
  finally show "i = j" by (simp only: of_nat_eq_iff)
qed






lemma needOneToManyHash_single [simp]:
  "needOneToManyHash [e] \<longleftrightarrow> e = ERR_COLUMN_NOT_UNIQUE"
  by (simp add: needOneToManyHash_def)

lemma reify_within_cap:
  "int_max (col_range_m t) - int_min (col_range_m t) + 1 \<le> 2 ^ 31 - 1 \<Longrightarrow>
   reify t invalid rows =
     (case initHashTableOnCpu (col_range_m t) rows
             (word_of_nat (nat (int_max (col_range_m t) - int_min (col_range_m t) + 1))) invalid of
        None \<Rightarrow>
          ([RangeValidated, EntryCountComputed, Populating, Failed], Inl KeyOutsideRange)
      | Some (err, tbl) \<Rightarrow>
          if err = ERR_COLUMN_NOT_UNIQUE then
            (case initOneToManyHashTableOnCpu (col_range_m t) rows
                    (word_of_nat (nat (int_max (col_range_m t) - int_min (col_range_m t) + 1)))
                    invalid of
               None \<Rightarrow>
                 ([RangeValidated, EntryCountComputed, Populating, Failed], Inl KeyOutsideRange)
             | Some m \<Rightarrow>
                 ([RangeValidated, EntryCountComputed, Populating, FellBackToOneToMany],
                  Inr (OneToManyTable m)))
          else if err = 0 then
            ([RangeValidated, EntryCountComputed, Populating, Succeeded], Inr (OneToOneTable tbl))
          else ([RangeValidated, EntryCountComputed, Populating, Failed], Inl HashJoinFail))"
  unfolding reify_def Let_def needOneToManyHash_single by (simp only: not_less [symmetric] if_False)









lemma length_source_rows [simp]: "length (source_rows col) = length col"
  by (simp add: source_rows_def)













text \<open>
  C3. A build attempt on a validated range fails with \<open>TooManyHashEntries\<close> exactly when
  the entry count \<open>max - min + 1\<close> exceeds \<open>2^31 - 1\<close>; it then fails straight from
  \<open>RangeValidated\<close>, before any table is populated, and its outcome is the error alone.
  At or below the cap this error is not raised.
\<close>

theorem too_many_entries:
  assumes "JoinHashTable_ctor r device_count = Inr t"
  shows "(snd (reify t hash_join_invalid_val rows) = Inl TooManyHashEntries \<longleftrightarrow>
            2 ^ 31 - 1 < int_max r - int_min r + 1) \<and>
         (2 ^ 31 - 1 < int_max r - int_min r + 1 \<longrightarrow>
            reify t hash_join_invalid_val rows = ([RangeValidated, Failed], Inl TooManyHashEntries))"
proof -
  have r: "col_range_m t = r" using assms by (rule ctor_range)
  show ?thesis
  proof (cases "2 ^ 31 - 1 < int_max r - int_min r + 1")
    case True
    then have "reify t hash_join_invalid_val rows = ([RangeValidated, Failed], Inl TooManyHashEntries)"
      unfolding reify_def Let_def r by (simp only: if_True)
    with True show ?thesis by simp
  next
    case False
    then have c: "int_max (col_range_m t) - int_min (col_range_m t) + 1 \<le> 2 ^ 31 - 1"
      unfolding r by (simp only: not_less)
    have "snd (reify t hash_join_invalid_val rows) \<noteq> Inl TooManyHashEntries"
      unfolding reify_within_cap[OF c] by (simp split: option.split prod.split)
    with False show ?thesis by simp
  qed
qed

text \<open>
  The range [0, 2147483647] has \<open>2^31\<close> entries and fails; the range [0, 2147483646] has
  \<open>2^31 - 1\<close> and does not raise the error.
\<close>

theorem too_many_entries_witness:
  "JoinHashTable_ctor \<lparr>range_type = Integer, int_min = 0, int_max = 2147483647, has_nulls = False\<rparr> 1 =
     Inr \<lparr>hash_type_m = OneToOne, hash_entry_count_m = 0, cpu_hash_table_buff_m = None,
          gpu_hash_table_buff_m = [],
          col_range_m = \<lparr>range_type = Integer, int_min = 0, int_max = 2147483647, has_nulls = False\<rparr>,
          device_count_m = 1\<rparr> \<and>
   reify \<lparr>hash_type_m = OneToOne, hash_entry_count_m = 0, cpu_hash_table_buff_m = None,
          gpu_hash_table_buff_m = [],
          col_range_m = \<lparr>range_type = Integer, int_min = 0, int_max = 2147483647, has_nulls = False\<rparr>,
          device_count_m = 1\<rparr> (- 1) [(0, Some 5)] =
     ([RangeValidated, Failed], Inl TooManyHashEntries) \<and>
   JoinHashTable_ctor \<lparr>range_type = Integer, int_min = 0, int_max = 2147483646, has_nulls = False\<rparr> 1 =
     Inr \<lparr>hash_type_m = OneToOne, hash_entry_count_m = 0, cpu_hash_table_buff_m = None,
          gpu_hash_table_buff_m = [],
          col_range_m = \<lparr>range_type = Integer, int_min = 0, int_max = 2147483646, has_nulls = False\<rparr>,
          device_count_m = 1\<rparr> \<and>
   snd (reify \<lparr>hash_type_m = OneToOne, hash_entry_count_m = 0, cpu_hash_table_buff_m = None,
          gpu_hash_table_buff_m = [],
          col_range_m = \<lparr>range_type = Integer, int_min = 0, int_max = 2147483646, has_nulls = False\<rparr>,
          device_count_m = 1\<rparr> (- 1) [(0, Some 5)]) \<noteq> Inl TooManyHashEntries"
proof -
  let ?r = "\<lparr>range_type = Integer, int_min = 0, int_max = 2147483647, has_nulls = False\<rparr>"
  let ?t = "\<lparr>hash_type_m = OneToOne, hash_entry_count_m = 0, cpu_hash_table_buff_m = None,
          gpu_hash_table_buff_m = [], col_range_m = ?r, device_count_m = 1\<rparr>"
  let ?r' = "\<lparr>range_type = Integer, int_min = 0, int_max = 2147483646, has_nulls = False\<rparr>"
  let ?t' = "\<lparr>hash_type_m = OneToOne, hash_entry_count_m = 0, cpu_hash_table_buff_m = None,
          gpu_hash_table_buff_m = [], col_range_m = ?r', device_count_m = 1\<rparr>"
  have h: "JoinHashTable_ctor ?r 1 = Inr ?t" by (simp add: JoinHashTable_ctor_def)
  have h': "JoinHashTable_ctor ?r' 1 = Inr ?t'" by (simp add: JoinHashTable_ctor_def)
  have "reify ?t (- 1) [(0, Some 5)] = ([RangeValidated, Failed], Inl TooManyHashEntries)"
    using too_many_entries[OF h, of "- 1" "[(0, Some 5)]"] by simp
  moreover have "snd (reify ?t' (- 1) [(0, Some 5)]) \<noteq> Inl TooManyHashEntries"
    using too_many_entries[OF h', of "- 1" "[(0, Some 5)]"] by simp
  ultimately show ?thesis using h h' by blast
qed

text \<open>
  C6. A build attempt on a value range that is not an integer range is rejected at range
  validation: it goes from \<open>Start\<close> straight to \<open>Failed\<close> with \<open>HashJoinFail\<close>, the
  signal on which the caller falls back to another join strategy; it is never in
  \<open>RangeValidated\<close> or \<open>Populating\<close> and has no payload. An integer range passes the
  validation: its attempt goes from \<open>Start\<close> to \<open>RangeValidated\<close>.
\<close>

theorem non_integer_range_rejected:
  "(range_type r \<noteq> Integer \<longrightarrow>
      getInstance r device_count hash_join_invalid_val rows = ([Start, Failed], Inl HashJoinFail)) \<and>
   (range_type r = Integer \<longrightarrow>
      take 2 (fst (getInstance r device_count hash_join_invalid_val rows)) = [Start, RangeValidated])"
proof (intro conjI impI)
  assume "range_type r \<noteq> Integer"
  then show "getInstance r device_count hash_join_invalid_val rows = ([Start, Failed], Inl HashJoinFail)"
    by (simp add: getInstance_def)
next
  assume i: "range_type r = Integer"
  then obtain t where t: "JoinHashTable_ctor r device_count = Inr t"
    by (simp add: JoinHashTable_ctor_def)
  have "\<exists>states. fst (reify t hash_join_invalid_val rows) = RangeValidated # states"
    unfolding reify_def Let_def
    by (simp split: option.split prod.split)
  then obtain states where "fst (reify t hash_join_invalid_val rows) = RangeValidated # states"
    by blast
  then show "take 2 (fst (getInstance r device_count hash_join_invalid_val rows)) = [Start, RangeValidated]"
    using i t by (simp add: getInstance_def case_prod_beta)
qed

text \<open>
  A range that is not an integer range, with a row at hand, and the integer range [10,12]
  with the same row.
\<close>

theorem non_integer_range_rejected_witness:
  "getInstance \<lparr>range_type = NonInteger, int_min = 10, int_max = 12, has_nulls = False\<rparr> 1 (- 1)
     [(0, Some 10)] = ([Start, Failed], Inl HashJoinFail) \<and>
   take 2 (fst (getInstance \<lparr>range_type = Integer, int_min = 10, int_max = 12, has_nulls = False\<rparr>
     1 (- 1) [(0, Some 10)])) = [Start, RangeValidated]"
proof -
  let ?r = "\<lparr>range_type = NonInteger, int_min = 10, int_max = 12, has_nulls = False\<rparr>"
  let ?r' = "\<lparr>range_type = Integer, int_min = 10, int_max = 12, has_nulls = False\<rparr>"
  have "getInstance ?r 1 (- 1) [(0, Some 10)] = ([Start, Failed], Inl HashJoinFail)"
    using non_integer_range_rejected[of ?r 1 "- 1" "[(0, Some 10)]"] by simp
  moreover have "take 2 (fst (getInstance ?r' 1 (- 1) [(0, Some 10)])) = [Start, RangeValidated]"
    using non_integer_range_rejected[of ?r' 1 "- 1" "[(0, Some 10)]"] by simp
  ultimately show ?thesis by blast
qed

text \<open>
  The integer range [10,12] with the row 0 of key 10 goes on to a One-to-One table; the
  constructor alone, were it given the range that is not an integer range, would fail its
  \<open>CHECK\<close>.
\<close>

lemma integer_range_built:
  "getInstance \<lparr>range_type = Integer, int_min = 10, int_max = 12, has_nulls = False\<rparr> 1 (- 1)
     [(0, Some 10)] =
     ([Start, RangeValidated, EntryCountComputed, Populating, Succeeded],
      Inr (OneToOneTable [0, - 1, - 1]))"
  by (simp add: getInstance_def JoinHashTable_ctor_def reify_def initHashTableOnCpu_def
      holds_other_row_def ERR_COLUMN_NOT_UNIQUE_def numeral_3_eq_3)

lemma ctor_check:
  "JoinHashTable_ctor \<lparr>range_type = NonInteger, int_min = 10, int_max = 12, has_nulls = False\<rparr> 1
     = Inl CheckFailed"
  by (simp add: JoinHashTable_ctor_def)



text \<open>
  The theorem holds for every sentinel and every row index. With the sentinel 0 the column
  \<open>[10, 10]\<close> over the range [10,10] falls back to One-to-Many in both visiting orders,
  though row 0 is stored as the sentinel: the bucket holds the index of row 0 when row 1
  comes to it, and the index of row 1 when row 0 does.
\<close>

lemma sentinel_as_row_index:
  "fst (reify \<lparr>hash_type_m = OneToOne, hash_entry_count_m = 0, cpu_hash_table_buff_m = None,
          gpu_hash_table_buff_m = [],
          col_range_m = \<lparr>range_type = Integer, int_min = 10, int_max = 10, has_nulls = False\<rparr>,
          device_count_m = 1\<rparr> 0 [(0, Some 10), (1, Some 10)]) =
     [RangeValidated, EntryCountComputed, Populating, FellBackToOneToMany] \<and>
   fst (reify \<lparr>hash_type_m = OneToOne, hash_entry_count_m = 0, cpu_hash_table_buff_m = None,
          gpu_hash_table_buff_m = [],
          col_range_m = \<lparr>range_type = Integer, int_min = 10, int_max = 10, has_nulls = False\<rparr>,
          device_count_m = 1\<rparr> 0 [(1, Some 10), (0, Some 10)]) =
     [RangeValidated, EntryCountComputed, Populating, FellBackToOneToMany]"
  by (simp add: reify_def initHashTableOnCpu_def initOneToManyHashTableOnCpu_def
      holds_other_row_def numeral_2_eq_2)

text \<open>
  Only the order inside a payload slice depends on the run: the rows 0 and 2 of key 10
  are stored as \<open>[0, 2]\<close> by one visiting order and as \<open>[2, 0]\<close> by the reverse one.
\<close>

lemma payload_order_may_differ:
  "initOneToManyHashTableOnCpu \<lparr>range_type = Integer, int_min = 10, int_max = 12, has_nulls = False\<rparr>
     [(0, Some 10), (1, Some 12), (2, Some 10)] 3 (- 1) =
     Some \<lparr>counts = [2, 0, 1], offsets = [0, 2, 2], payload = [0, 2, 1], null_bucket = 0\<rparr> \<and>
   initOneToManyHashTableOnCpu \<lparr>range_type = Integer, int_min = 10, int_max = 12, has_nulls = False\<rparr>
     [(2, Some 10), (1, Some 12), (0, Some 10)] 3 (- 1) =
     Some \<lparr>counts = [2, 0, 1], offsets = [0, 2, 2], payload = [2, 0, 1], null_bucket = 0\<rparr>"
  by (simp add: initOneToManyHashTableOnCpu_def numeral_3_eq_3 numeral_2_eq_2)

subsection \<open>The hash table cache\<close>

lemma same_fingerprint:
  assumes "symp eq" "transp eq" "eq k1 k2"
  shows "eq x k1 \<longleftrightarrow> eq x k2"
proof -
  from assms have "eq k2 k1" by (auto dest: sympD)
  with assms show ?thesis by (auto dest: transpD)
qed

lemma same_fingerprint_pred:
  assumes "symp eq" "transp eq" "eq k1 k2"
  shows "(\<lambda>kv. eq (fst kv) k1) = (\<lambda>kv. eq (fst kv) k2)"
  using same_fingerprint[OF assms] by auto

lemma find_append_miss: "find P xs = None \<Longrightarrow> find P (xs @ ys) = find P ys"
  by (induction xs) (auto split: if_splits)

lemma lookup_None_iff:
  "cache_lookup eq k c = None \<longleftrightarrow> \<not> list_ex (\<lambda>kv. eq (fst kv) k) c"
  by (auto simp: cache_lookup_def find_None_iff list_ex_iff)

lemma insert_after_miss:
  "cache_lookup eq k c = None \<Longrightarrow> cache_insert eq k p c = c @ [(k, p)]"
  by (simp add: lookup_None_iff cache_insert_def)

lemma lookup_append_miss:
  "cache_lookup eq k c = None \<Longrightarrow> eq k' k \<Longrightarrow> cache_lookup eq k (c @ [(k', p)]) = Some p"
  by (simp add: cache_lookup_def find_append_miss)

lemma insert_present:
  "eq k' k \<Longrightarrow> cache_insert eq k p (c @ [(k', q)]) = c @ [(k', q)]"
  by (simp add: cache_insert_def list_ex_iff)

lemma insert_keeps_unique:
  assumes "symp eq" "transp eq"
    and "\<And>k. length (filter (\<lambda>kv. eq (fst kv) k) c) \<le> 1"
  shows "length (filter (\<lambda>kv. eq (fst kv) k) (cache_insert eq k' p c)) \<le> 1"
proof (cases "list_ex (\<lambda>kv. eq (fst kv) k') c")
  case True
  then show ?thesis using assms(3) by (simp add: cache_insert_def)
next
  case False
  show ?thesis
  proof (cases "eq k' k")
    case True
    from same_fingerprint[OF assms(1,2) True] False
    have "filter (\<lambda>kv. eq (fst kv) k) c = []"
      by (simp add: list_ex_iff filter_empty_conv)
    with False True show ?thesis by (simp add: cache_insert_def)
  next
    case no: False
    with False assms(3)[of k] show ?thesis by (simp add: cache_insert_def)
  qed
qed

lemma insert_all_unique:
  assumes "symp eq" "transp eq"
  shows "(\<And>k. length (filter (\<lambda>kv. eq (fst kv) k) c) \<le> 1) \<Longrightarrow>
         length (filter (\<lambda>kv. eq (fst kv) k) (insert_all eq requests c)) \<le> 1"
proof (induction requests arbitrary: c k)
  case Nil
  then show ?case by (simp add: insert_all_def)
next
  case (Cons kp requests)
  have "length (filter (\<lambda>kv. eq (fst kv) k) (insert_all eq requests (cache_insert eq (fst kp) (snd kp) c))) \<le> 1"
    by (rule Cons.IH) (rule insert_keeps_unique[OF assms Cons.prems])
  then show ?case by (simp add: insert_all_def)
qed

lemma key_eq_structural:
  "JoinHashTableCacheKey_eq (=) (=) (=) (=) a b \<longleftrightarrow> a = b"
  by (cases a, cases b) (simp add: JoinHashTableCacheKey_eq_def)

text \<open>
  C4. Let the comparison of fingerprints be symmetric and transitive, and two requests
  have equal fingerprints. Then a second get-or-insert after a first returns the same
  payload instance as the first and leaves the cache as the first left it; after any
  sequence of inserts into the empty cache, at most one entry compares equal to a given
  fingerprint; and when both requests missed their lookup on the same cache and both
  insert what they built, the second insert is a no-op and a later lookup of the second
  fingerprint yields the first payload.
\<close>

theorem cache_get_or_insert:
  assumes "symp eq" and "transp eq" and "eq k1 k2"
  shows "fst (get_or_insert eq k2 p2 (snd (get_or_insert eq k1 p1 c))) = fst (get_or_insert eq k1 p1 c) \<and>
     snd (get_or_insert eq k2 p2 (snd (get_or_insert eq k1 p1 c))) = snd (get_or_insert eq k1 p1 c) \<and>
     length (filter (\<lambda>kv. eq (fst kv) k) (insert_all eq requests [])) \<le> 1 \<and>
     (cache_lookup eq k1 c = None \<longrightarrow>
        cache_lookup eq k2 c = None \<and>
        cache_insert eq k2 p2 (cache_insert eq k1 p1 c) = c @ [(k1, p1)] \<and>
        cache_lookup eq k2 (c @ [(k1, p1)]) = Some p1)"
proof -
  note pe = same_fingerprint_pred[OF assms]
  have l: "cache_lookup eq k2 c' = cache_lookup eq k1 c'" for c' :: "('a \<times> 'b) list"
    by (simp add: cache_lookup_def pe)
  have seq: "get_or_insert eq k2 p2 (snd (get_or_insert eq k1 p1 c)) = get_or_insert eq k1 p1 c"
  proof (cases "cache_lookup eq k1 c")
    case None
    then have "get_or_insert eq k1 p1 c = (p1, c @ [(k1, p1)])"
      by (simp add: get_or_insert_def insert_after_miss)
    moreover have "cache_lookup eq k2 c = None" using None l by simp
    then have "cache_lookup eq k2 (c @ [(k1, p1)]) = Some p1"
      using assms(3) by (rule lookup_append_miss)
    ultimately show ?thesis by (simp add: get_or_insert_def)
  next
    case (Some q)
    then show ?thesis using l by (simp add: get_or_insert_def)
  qed
  have u: "length (filter (\<lambda>kv. eq (fst kv) k) (insert_all eq requests [])) \<le> 1"
    by (rule insert_all_unique[OF assms(1,2)]) simp
  have race: "cache_lookup eq k2 c = None \<and>
        cache_insert eq k2 p2 (cache_insert eq k1 p1 c) = c @ [(k1, p1)] \<and>
        cache_lookup eq k2 (c @ [(k1, p1)]) = Some p1" if m: "cache_lookup eq k1 c = None"
  proof -
    have m2: "cache_lookup eq k2 c = None" using m l by simp
    moreover have "cache_insert eq k2 p2 (cache_insert eq k1 p1 c) = c @ [(k1, p1)]"
      using m assms(3) by (simp add: insert_after_miss insert_present)
    moreover have "cache_lookup eq k2 (c @ [(k1, p1)]) = Some p1"
      using m2 assms(3) by (rule lookup_append_miss)
    ultimately show ?thesis by simp
  qed
  from seq u race show ?thesis by simp
qed

text \<open>
  Two requests with the same key under the comparison of \<open>JoinHashTableCacheKey\<close>, the
  first building a table at address 4096, the second one at 8192.
\<close>

theorem cache_get_or_insert_witness:
  "symp (JoinHashTableCacheKey_eq (=) (=) (=) (=) ::
      (int \<times> int, nat, nat list, nat) JoinHashTableCacheKey \<Rightarrow> _) \<and>
   transp (JoinHashTableCacheKey_eq (=) (=) (=) (=) ::
      (int \<times> int, nat, nat list, nat) JoinHashTableCacheKey \<Rightarrow> _) \<and>
   JoinHashTableCacheKey_eq (=) (=) (=) (=)
     \<lparr>col_range = (10 :: int, 12 :: int), inner_col = 1 :: nat, outer_col = 2, num_elements = 4,
      chunk_key = [1, 7, 3 :: nat], optype = 0 :: nat\<rparr>
     \<lparr>col_range = (10, 12), inner_col = 1, outer_col = 2, num_elements = 4,
      chunk_key = [1, 7, 3], optype = 0\<rparr> \<and>
   get_or_insert (JoinHashTableCacheKey_eq (=) (=) (=) (=))
     \<lparr>col_range = (10 :: int, 12 :: int), inner_col = 1 :: nat, outer_col = 2, num_elements = 4,
      chunk_key = [1, 7, 3 :: nat], optype = 0 :: nat\<rparr> (8192 :: 64 word)
     (snd (get_or_insert (JoinHashTableCacheKey_eq (=) (=) (=) (=))
       \<lparr>col_range = (10, 12), inner_col = 1, outer_col = 2, num_elements = 4,
        chunk_key = [1, 7, 3], optype = 0\<rparr> 4096 [])) =
     (4096,
      [(\<lparr>col_range = (10, 12), inner_col = 1, outer_col = 2, num_elements = 4,
         chunk_key = [1, 7, 3], optype = 0\<rparr>, 4096)])"
proof -
  let ?eq = "JoinHashTableCacheKey_eq (=) (=) (=) (=) ::
      (int \<times> int, nat, nat list, nat) JoinHashTableCacheKey \<Rightarrow> _"
  let ?k = "\<lparr>col_range = (10 :: int, 12 :: int), inner_col = 1 :: nat, outer_col = 2, num_elements = 4,
      chunk_key = [1, 7, 3 :: nat], optype = 0 :: nat\<rparr>"
  have e: "?eq = (=)" by (intro ext) (rule key_eq_structural)
  have h1: "symp ?eq" unfolding e by (rule sympI) (rule sym)
  have h2: "transp ?eq" unfolding e by (rule transpI) (rule trans)
  have h3: "?eq ?k ?k" unfolding e by (rule refl)
  have first: "get_or_insert ?eq ?k (4096 :: 64 word) [] = (4096, [(?k, 4096)])"
    by (simp add: get_or_insert_def cache_lookup_def cache_insert_def)
  note th = cache_get_or_insert[where eq = ?eq and ?k1.0 = ?k and ?k2.0 = ?k
      and ?p1.0 = "4096 :: 64 word" and ?p2.0 = "8192 :: 64 word" and c = "[]", OF h1 h2 h3]
  have "get_or_insert ?eq ?k (8192 :: 64 word) (snd (get_or_insert ?eq ?k 4096 [])) =
      (4096, [(?k, 4096)])"
  proof (rule prod_eqI)
    show "fst (get_or_insert ?eq ?k (8192 :: 64 word) (snd (get_or_insert ?eq ?k 4096 []))) =
      fst (4096 :: 64 word, [(?k, 4096 :: 64 word)])"
      using th[THEN conjunct1] unfolding first .
    show "snd (get_or_insert ?eq ?k (8192 :: 64 word) (snd (get_or_insert ?eq ?k 4096 []))) =
      snd (4096 :: 64 word, [(?k, 4096 :: 64 word)])"
      using th[THEN conjunct2, THEN conjunct1] unfolding first .
  qed
  then show ?thesis by (intro conjI h1 h2 h3)
qed

subsection \<open>The Cartesian product iterator\<close>

lemma scan_structure_result:
  "order_size < 2 ^ 64 \<Longrightarrow>
   scan_structure xs (sz, index, input_size, order_size) =
     (sz + length (non_empty xs), index @ replicate (length (non_empty xs)) 0,
      input_size @ map length (non_empty xs),
      (order_size * prod_list (map length (non_empty xs))) mod 2 ^ 64)"
proof (induction xs arbitrary: sz index input_size order_size)
  case Nil
  then show ?case by (simp add: non_empty_def)
next
  case (Cons entry rest)
  show ?case
  proof (cases "entry = []")
    case True
    then show ?thesis using Cons by (simp add: non_empty_def)
  next
    case False
    have "(order_size * length entry mod 2 ^ 64 * prod_list (map length (non_empty rest))) mod 2 ^ 64
        = (order_size * (length entry * prod_list (map length (non_empty rest)))) mod 2 ^ 64"
      by (simp add: mod_mult_left_eq mult.assoc)
    moreover have "order_size * length entry mod 2 ^ 64 < (2 ^ 64 :: nat)" by simp
    ultimately show ?thesis using False Cons.IH
      by (simp add: non_empty_def replicate_app_Cons_same)
  qed
qed

lemma take_non_empty:
  "\<forall>j < length (non_empty xs). xs ! j \<noteq> [] \<Longrightarrow> take (length (non_empty xs)) xs = non_empty xs"
proof (induction xs)
  case Nil
  then show ?case by (simp add: non_empty_def)
next
  case (Cons x xs)
  show ?case
  proof (cases "x = []")
    case True
    have "non_empty xs = []"
    proof (rule ccontr)
      assume "non_empty xs \<noteq> []"
      then have "0 < length (non_empty (x # xs))" using True by (simp add: non_empty_def)
      with Cons.prems have "(x # xs) ! 0 \<noteq> []" by blast
      with True show False by simp
    qed
    with True show ?thesis by (simp add: non_empty_def)
  next
    case False
    have "\<forall>j < length (non_empty xs). xs ! j \<noteq> []"
    proof (intro allI impI)
      fix j assume "j < length (non_empty xs)"
      then have "Suc j < length (non_empty (x # xs))" using False by (simp add: non_empty_def)
      with Cons.prems have "(x # xs) ! Suc j \<noteq> []" by blast
      then show "xs ! j \<noteq> []" by simp
    qed
    from Cons.IH[OF this] False show ?thesis by (simp add: non_empty_def)
  qed
qed

lemma length_non_empty_le: "length (non_empty xs) \<le> length xs"
  by (simp add: non_empty_def)

lemma advance_index:
  assumes "\<forall>j < length index. index ! j < input_size ! j"
    and "advance n input_size steps index = (steps', index')"
  shows "length index' = length index \<and> (\<forall>j < length index. index' ! j < input_size ! j)"
  using assms
proof (induction n input_size steps index rule: advance.induct)
  case (1 input_size steps index)
  then show ?case by simp
next
  case (2 j input_size steps index)
  show ?case
  proof (cases "dec_size_t (steps ! j) = 0")
    case True
    with "2.prems" "2.IH" show ?thesis by simp
  next
    case False
    with "2.prems"(2) have i: "index' = index[j := ((index ! j + 1) mod 2 ^ 64) mod (input_size ! j)]"
      by simp
    have "index' ! k < input_size ! k" if "k < length index" for k
    proof (cases "k = j")
      case True
      from "2.prems"(1) that have "0 < input_size ! k" by fastforce
      with True that i show ?thesis by simp
    next
      case False
      with "2.prems"(1) that i show ?thesis by simp
    qed
    with i show ?thesis by simp
  qed
qed

lemma read_row_in_bounds:
  assumes "sz \<le> length structure" and "\<forall>j < sz. index ! j < length (structure ! j)"
  shows "\<exists>row. read_row structure index sz = Some row"
  using assms by (simp add: read_row_def list_all_iff)

lemma generate_length:
  assumes "sz \<le> length structure" and "length index = sz"
    and "\<forall>j < sz. input_size ! j \<le> length (structure ! j)"
    and "\<forall>j < sz. index ! j < input_size ! j"
  shows "\<exists>rows. generate n structure sz input_size steps index result = Some rows \<and>
           length rows = length result + n"
  using assms(2,4)
proof (induction n arbitrary: steps index result)
  case 0
  then show ?case by simp
next
  case (Suc n)
  have "\<forall>j < sz. index ! j < length (structure ! j)"
    using Suc.prems(2) assms(3) by (meson less_le_trans)
  from read_row_in_bounds[OF assms(1) this] obtain row where
    row: "read_row structure index sz = Some row" by blast
  obtain steps' index' where a: "advance sz input_size steps index = (steps', index')"
    by (cases "advance sz input_size steps index")
  from advance_index[OF _ a] Suc.prems have
    i: "length index' = sz" "\<forall>j < sz. index' ! j < input_size ! j" by simp_all
  from Suc.IH[OF i, of steps' "result @ [row]"] obtain rows where
    "generate n structure sz input_size steps' index' (result @ [row]) = Some rows"
    "length rows = length (result @ [row]) + n" by blast
  with row a show ?case by simp
qed

lemma increment_result [simp]: "result_m (increment it) = result_m it"
  by (simp add: increment_def)

lemma increments_result [simp]: "result_m ((increment ^^ n) it) = result_m it"
  by (induction n) simp_all

lemma prod_list_pos: "\<forall>x \<in> set xs. 0 < x \<Longrightarrow> 0 < (prod_list xs :: nat)"
  by (induction xs) simp_all

text \<open>
  C10 as it is written fails on the structure \<open>[[]]\<close>: it contains an empty member, the
  product of the sizes of its non-empty members (there are none) is 1, and the constructor
  generates no tuple, because it returns early when every inner container is empty.
\<close>

theorem cartesian_product_counterexample:
  "CartesianProductIterator_ctor [[] :: nat list] 0 =
     Some \<lparr>structure_m = [[]], absolutePosition_m = SIZE_MAX, result_m = [], size_m = 0,
           order_size_m = 1\<rparr> \<and>
   prod_list (map length (non_empty [[] :: nat list])) = 1"
  by (simp add: CartesianProductIterator_ctor_def non_empty_def)

lemma cartesian_product_count:
  assumes "pos \<noteq> SIZE_MAX"
    and "non_empty structure \<noteq> []"
    and "\<forall>j < length (non_empty structure). structure ! j \<noteq> []"
    and "prod_list (map length (non_empty structure)) < 2 ^ 64"
  shows "\<exists>it. CartesianProductIterator_ctor structure pos = Some it \<and>
     size_m it = length (non_empty structure) \<and>
     getSize it = prod_list (map length (non_empty structure)) \<and>
     0 < getSize it"
proof -
  let ?ne = "non_empty structure"
  let ?sz = "length ?ne"
  let ?isz = "map length ?ne"
  let ?idx = "replicate ?sz (0::nat)"
  let ?ord = "prod_list ?isz"
  have scan: "scan_structure structure (0, [], [], 1) = (?sz, ?idx, ?isz, ?ord)"
    using scan_structure_result[of 1 "structure" 0 "[]" "[]"] assms(4) by simp
  have sz: "?sz \<noteq> 0" using assms(2) by simp
  have le: "?sz \<le> length structure" by (rule length_non_empty_le)
  have tk: "take ?sz structure = ?ne" using assms(3) by (rule take_non_empty)
  have nth: "structure ! j = ?ne ! j" if "j < ?sz" for j
    using that by (metis tk nth_take)
  have b1: "\<forall>j < ?sz. ?isz ! j \<le> length (structure ! j)"
    using nth by simp
  have pos: "0 < length (?ne ! j)" if "j < ?sz" for j
  proof -
    from that have "?ne ! j \<in> set ?ne" by simp
    then show ?thesis by (simp add: non_empty_def)
  qed
  then have b2: "\<forall>j < ?sz. ?idx ! j < ?isz ! j" by simp
  from generate_length[OF le _ b1 b2, of ?ord ?isz "[]"] obtain rows where
    g: "generate ?ord structure ?sz ?isz ?isz ?idx [] = Some rows" and l: "length rows = ?ord"
    by auto
  let ?it = "(increment ^^ pos)
      \<lparr>structure_m = structure, absolutePosition_m = 0, result_m = rows, size_m = ?sz,
       order_size_m = ?ord\<rparr>"
  have c: "CartesianProductIterator_ctor structure pos = Some ?it"
    using scan sz assms(1) g by (simp add: CartesianProductIterator_ctor_def)
  have szm: "size_m ((increment ^^ n) it) = size_m it" for n and it :: "'a CartesianProductIterator"
    by (induction n) (simp_all add: increment_def)
  have "0 < ?ord" by (rule prod_list_pos) (auto simp: non_empty_def)
  with l have "rows \<noteq> []" by auto
  with c l szm show ?thesis by (simp add: getSize_def)
qed

lemma cartesian_product_guard:
  assumes "non_empty structure = []"
  shows "\<exists>it. CartesianProductIterator_ctor structure pos = Some it \<and> getSize it = 0"
proof -
  have "scan_structure structure (0, [], [], 1) = (0, [], [], 1)"
    using scan_structure_result[of 1 "structure" 0 "[]" "[]"] assms by simp
  then show ?thesis by (simp add: CartesianProductIterator_ctor_def getSize_def)
qed

text \<open>
  C10, amended. The constructor skips inner containers of size zero. For every outer
  container with at least one non-empty inner container, whose empty inner containers all
  come after the non-empty ones, constructed at a position other than \<open>SIZE_MAX\<close>, and
  with the product of the non-empty sizes below \<open>2^64\<close>: the constructor returns, its
  \<open>size_\<close> is the number of non-empty inner containers, and the number of tuples it
  generates is the product of their sizes, which is not 0. When every inner container is
  empty, the constructor returns early and generates no tuple.
\<close>

theorem cartesian_product_size:
  "(pos \<noteq> SIZE_MAX \<and> non_empty structure \<noteq> [] \<and>
    (\<forall>j < length (non_empty structure). structure ! j \<noteq> []) \<and>
    prod_list (map length (non_empty structure)) < 2 ^ 64 \<longrightarrow>
      (\<exists>it. CartesianProductIterator_ctor structure pos = Some it \<and>
         size_m it = length (non_empty structure) \<and>
         getSize it = prod_list (map length (non_empty structure)) \<and>
         0 < getSize it)) \<and>
   (non_empty structure = [] \<longrightarrow>
      (\<exists>it. CartesianProductIterator_ctor structure pos = Some it \<and> getSize it = 0))"
  using cartesian_product_count[of pos "structure"] cartesian_product_guard[of "structure" pos]
  by blast

text \<open>The structures \<open>[[1, 2], [3], []]\<close>, with two tuples, and \<open>[[], []]\<close>, with none.\<close>

theorem cartesian_product_size_witness:
  "(0::nat) \<noteq> SIZE_MAX \<and> non_empty [[1, 2], [3 :: nat], []] \<noteq> [] \<and>
   (\<exists>it. CartesianProductIterator_ctor [[1, 2], [3 :: nat], []] 0 = Some it \<and>
      size_m it = 2 \<and> getSize it = 2) \<and>
   non_empty [[], [] :: nat list] = [] \<and>
   (\<exists>it. CartesianProductIterator_ctor [[], [] :: nat list] 0 = Some it \<and> getSize it = 0)"
proof -
  let ?s = "[[1, 2], [3 :: nat], []]"
  let ?e = "[[], [] :: nat list]"
  have h1: "(0::nat) \<noteq> SIZE_MAX" by (simp add: SIZE_MAX_def)
  have h2: "non_empty ?s \<noteq> []" by (simp add: non_empty_def)
  have h3: "\<forall>j < length (non_empty ?s). ?s ! j \<noteq> []"
    by (simp add: non_empty_def less_Suc_eq)
  have h4: "prod_list (map length (non_empty ?s)) < 2 ^ 64" by (simp add: non_empty_def)
  have h5: "non_empty ?e = []" by (simp add: non_empty_def)
  from cartesian_product_size[of 0 ?s, THEN conjunct1] h1 h2 h3 h4 obtain it where
    "CartesianProductIterator_ctor ?s 0 = Some it"
    "size_m it = length (non_empty ?s)"
    "getSize it = prod_list (map length (non_empty ?s))" by blast
  then have a: "\<exists>it. CartesianProductIterator_ctor ?s 0 = Some it \<and> size_m it = 2 \<and> getSize it = 2"
    by (simp add: non_empty_def)
  from cartesian_product_size[of 0 ?e, THEN conjunct2] h5 have
    b: "\<exists>it. CartesianProductIterator_ctor ?e 0 = Some it \<and> getSize it = 0" by blast
  from h1 h2 a h5 b show ?thesis by blast
qed

text \<open>
  The tuples of that structure, and what happens when an empty container comes before a
  non-empty one: the row is read from \<open>structure[0]\<close>, the empty container, outside its
  bounds.
\<close>

lemma cartesian_product_rows:
  "map_option result_m (CartesianProductIterator_ctor [[1, 2], [3 :: nat], []] 0) =
     Some [[1, 3], [2, 3]]"
  by (simp add: CartesianProductIterator_ctor_def SIZE_MAX_def read_row_def dec_size_t_def
      increment_def)

lemma cartesian_product_out_of_bounds:
  "CartesianProductIterator_ctor [[], [1, 2 :: nat]] 0 = None"
  by (simp add: CartesianProductIterator_ctor_def SIZE_MAX_def read_row_def)

end
